theory Spec2Isabelle
  imports Main
begin

section \<open>Embedding of \<open>ihm/location.py\<close>\<close>

text \<open>
  The module is a small class hierarchy of value objects (\<open>Location\<close> and its subclasses,
  \<open>Repository\<close>) plus one resolution helper, \<open>Repository._update_in_repos\<close>. Objects are
  records, classes are datatypes of class tags, an exception is the \<open>Inl\<close> of a sum (or the
  first component of a pair where the object mutated so far must stay visible), and the
  calls into \<open>os\<close> and \<open>os.path\<close> are fields of an environment record, so that every
  theorem holds for whatever the operating system answers.

  Python strings are modelled as \<open>string\<close>; \<open>len\<close> is \<open>length\<close>, which agrees with Python
  on ASCII paths.
\<close>

subsection \<open>Exceptions\<close>

text \<open>
  The exceptions the module can raise: the \<open>ValueError\<close> of line 101 (the error kind the
  specification calls \<open>NotFoundError\<close>), the \<open>AttributeError\<close> of a failed attribute
  lookup (carrying the attribute name), the \<open>TypeError\<close> of calling a method without
  an instance, and an \<open>OSError\<close> from \<open>os.stat\<close>.
\<close>

datatype error =
  ValueError string | AttributeError string | TypeError string | OSError string

subsection \<open>The operating system\<close>

text \<open>
  \<open>os.path.exists\<close>, \<open>os.stat(p).st_size\<close> (\<open>None\<close> when \<open>os.stat\<close> raises),
  \<open>os.path.abspath\<close> and \<open>os.path.relpath\<close> (which raises a \<open>ValueError\<close> on some inputs,
  the empty path for one).
\<close>

record os_env =
  path_exists :: "string \<Rightarrow> bool"
  stat_size :: "string \<Rightarrow> nat option"
  abspath :: "string \<Rightarrow> string"
  relpath :: "string \<Rightarrow> string \<Rightarrow> error + string"

text \<open>The two filesystem queries of the module, recorded in the order they are made.\<close>

datatype fs_query = Q_exists string | Q_stat string

subsection \<open>Repository\<close>

text \<open>
  \<open>root\<close> is the private attribute \<open>_root\<close>; \<open>None\<close> means that the attribute was never
  assigned (lines 163 to 165 assign it only when a root is passed).
\<close>

record Repository =
  doi :: string
  url :: "string option"
  top_directory :: "string option"
  root :: "string option"

definition Repository_init ::
  "os_env \<Rightarrow> string \<Rightarrow> string option \<Rightarrow> string option \<Rightarrow> string option \<Rightarrow> Repository" where
  "Repository_init os d rt u td =
     \<lparr>doi = d, url = u, top_directory = td,
      root = (case rt of None \<Rightarrow> None | Some x \<Rightarrow> Some (abspath os x))\<rparr>"

subsection \<open>The Location hierarchy\<close>

datatype db_class =
  C_DatabaseLocation | C_EMDBLocation | C_PDBLocation | C_MassIVELocation
  | C_EMPIARLocation | C_SASBDBLocation

datatype file_class =
  C_FileLocation | C_InputFileLocation | C_OutputFileLocation
  | C_WorkflowFileLocation | C_VisualizationFileLocation

datatype pyclass = C_Location | DbClass db_class | FileClass file_class

text \<open>
  An instance carries its identity (\<open>id(self)\<close>), the value \<open>self._allow_duplicates\<close>
  resolves to (the class attribute \<open>False\<close> unless an instance overrides it) and
  \<open>details\<close>; the two subclasses with a constructor of their own add their attributes and
  the tag of the concrete class.
\<close>

record Location =
  obj_id :: nat
  allow_duplicates :: bool
  details :: "string option"

record DatabaseLocation = Location +
  db_class :: db_class
  db_name :: string
  access_code :: string
  version :: "string option"

record FileLocation = Location +
  file_class :: file_class
  repo :: "Repository option"
  path :: string
  file_size :: "nat option"

fun class_content_type :: "file_class \<Rightarrow> string option" where
  "class_content_type C_FileLocation = None"
| "class_content_type C_InputFileLocation = Some ''Input data or restraints''"
| "class_content_type C_OutputFileLocation = Some ''Modeling or post-processing output''"
| "class_content_type C_WorkflowFileLocation = Some ''Modeling workflow or script''"
| "class_content_type C_VisualizationFileLocation = Some ''Visualization script''"

definition content_type :: "FileLocation \<Rightarrow> string option" where
  "content_type fl = class_content_type (file_class fl)"

definition Location_init :: "nat \<Rightarrow> string option \<Rightarrow> Location" where
  "Location_init oid dt = \<lparr>obj_id = oid, allow_duplicates = False, details = dt\<rparr>"

definition DatabaseLocation_init ::
  "nat \<Rightarrow> db_class \<Rightarrow> string \<Rightarrow> string \<Rightarrow> string option \<Rightarrow> string option
   \<Rightarrow> DatabaseLocation" where
  "DatabaseLocation_init oid c nm code ver dt =
     \<lparr>obj_id = oid, allow_duplicates = False, details = dt,
      db_class = c, db_name = nm, access_code = code, version = ver\<rparr>"

definition EMDBLocation_init ::
  "nat \<Rightarrow> string \<Rightarrow> string option \<Rightarrow> string option \<Rightarrow> DatabaseLocation" where
  "EMDBLocation_init oid code ver dt =
     DatabaseLocation_init oid C_EMDBLocation ''EMDB'' code ver dt"

definition PDBLocation_init ::
  "nat \<Rightarrow> string \<Rightarrow> string option \<Rightarrow> string option \<Rightarrow> DatabaseLocation" where
  "PDBLocation_init oid code ver dt =
     DatabaseLocation_init oid C_PDBLocation ''PDB'' code ver dt"

definition MassIVELocation_init ::
  "nat \<Rightarrow> string \<Rightarrow> string option \<Rightarrow> string option \<Rightarrow> DatabaseLocation" where
  "MassIVELocation_init oid code ver dt =
     DatabaseLocation_init oid C_MassIVELocation ''MASSIVE'' code ver dt"

definition EMPIARLocation_init ::
  "nat \<Rightarrow> string \<Rightarrow> string option \<Rightarrow> string option \<Rightarrow> DatabaseLocation" where
  "EMPIARLocation_init oid code ver dt =
     DatabaseLocation_init oid C_EMPIARLocation ''EMPIAR'' code ver dt"

definition SASBDBLocation_init ::
  "nat \<Rightarrow> string \<Rightarrow> string option \<Rightarrow> string option \<Rightarrow> DatabaseLocation" where
  "SASBDBLocation_init oid code ver dt =
     DatabaseLocation_init oid C_SASBDBLocation ''SASBDB'' code ver dt"

text \<open>
  Truth value of \<open>repo\<close> in \<open>if repo:\<close>. \<open>Repository\<close> defines neither \<open>__bool__\<close> nor
  \<open>__len__\<close>, so an instance is true and only \<open>None\<close> is false.
\<close>

definition truthy :: "Repository option \<Rightarrow> bool" where
  "truthy r = (r \<noteq> None)"

text \<open>
  \<open>FileLocation.__init__\<close>, for the class \<open>c\<close> being instantiated (the subclasses inherit
  the constructor). The result is the new object or the exception raised, with the
  filesystem queries made on the way.
\<close>

definition FileLocation_init ::
  "os_env \<Rightarrow> nat \<Rightarrow> file_class \<Rightarrow> string \<Rightarrow> Repository option \<Rightarrow> string option
   \<Rightarrow> (error + FileLocation) \<times> fs_query list" where
  "FileLocation_init os oid c p r dt =
     (if truthy r then
        (Inr \<lparr>obj_id = oid, allow_duplicates = False, details = dt,
              file_class = c, repo = r, path = p, file_size = None\<rparr>, [])
      else if \<not> path_exists os p then
        (Inl (ValueError (p @ '' does not exist'')), [Q_exists p])
      else
        (case stat_size os p of
           None \<Rightarrow> (Inl (OSError p), [Q_exists p, Q_stat p])
         | Some sz \<Rightarrow>
             (Inr \<lparr>obj_id = oid, allow_duplicates = False, details = dt,
                   file_class = c, repo = r, path = abspath os p, file_size = Some sz\<rparr>,
              [Q_exists p, Q_stat p])))"

subsection \<open>Equality\<close>

text \<open>
  The Python values that occur as attributes of the objects above and as elements of the
  tuple built by \<open>_eq_vals\<close>: \<open>None\<close>, strings, integers, class objects and
  repositories.
\<close>

datatype pyval = PyNone | PyStr string | PyInt int | PyType pyclass | PyRepository Repository

fun opt_str :: "string option \<Rightarrow> pyval" where
  "opt_str None = PyNone"
| "opt_str (Some s) = PyStr s"

fun opt_repo :: "Repository option \<Rightarrow> pyval" where
  "opt_repo None = PyNone"
| "opt_repo (Some r) = PyRepository r"

text \<open>The lookup \<open>repo._root\<close>: an \<open>AttributeError\<close> when the attribute was never set.\<close>

definition Repository_root :: "Repository \<Rightarrow> error + string" where
  "Repository_root r =
     (case root r of None \<Rightarrow> Inl (AttributeError ''_root'') | Some x \<Rightarrow> Inr x)"

text \<open>Attribute lookup \<open>v.a\<close> on one of these values, for the attributes the module reads.\<close>

fun getattr_val :: "pyval \<Rightarrow> string \<Rightarrow> error + pyval" where
  "getattr_val (PyRepository r) a =
     (if a = ''doi'' then Inr (PyStr (doi r))
      else if a = ''url'' then Inr (opt_str (url r))
      else if a = ''top_directory'' then Inr (opt_str (top_directory r))
      else if a = ''_root'' then map_sum id PyStr (Repository_root r)
      else Inl (AttributeError a))"
| "getattr_val v a = Inl (AttributeError a)"

text \<open>
  \<open>Repository.__eq__\<close> (line 141): \<open>self.doi == other.doi and self.url == other.url\<close>.
  The attributes compared are strings or \<open>None\<close>, whose \<open>==\<close> is structural; \<open>and\<close> does
  not evaluate its right operand when the left one is false.
\<close>

definition Repository_eq :: "Repository \<Rightarrow> pyval \<Rightarrow> error + bool" where
  "Repository_eq self other =
     (case getattr_val other ''doi'' of
        Inl e \<Rightarrow> Inl e
      | Inr od \<Rightarrow>
          if PyStr (doi self) \<noteq> od then Inr False
          else (case getattr_val other ''url'' of
                  Inl e \<Rightarrow> Inl e
                | Inr ou \<Rightarrow> Inr (opt_str (url self) = ou)))"

text \<open>
  Python's \<open>x == y\<close> on these values. A repository on the left answers with its
  \<open>__eq__\<close>; with a repository on the right only, the built-in type on the left answers
  \<open>NotImplemented\<close> and Python calls the reflected \<open>Repository.__eq__(y, x)\<close>; the built-in
  values compare structurally.
\<close>

fun py_eq :: "pyval \<Rightarrow> pyval \<Rightarrow> error + bool" where
  "py_eq (PyRepository r) y = Repository_eq r y"
| "py_eq x (PyRepository r) = Repository_eq r x"
| "py_eq x y = Inr (x = y)"

text \<open>
  \<open>==\<close> on tuples: the elements are compared in order up to the first pair that differs
  (an exception there propagates), then the lengths.
\<close>

fun tuple_eq :: "pyval list \<Rightarrow> pyval list \<Rightarrow> error + bool" where
  "tuple_eq [] [] = Inr True"
| "tuple_eq [] (y # ys) = Inr False"
| "tuple_eq (x # xs) [] = Inr False"
| "tuple_eq (x # xs) (y # ys) =
     (case py_eq x y of
        Inl e \<Rightarrow> Inl e
      | Inr b \<Rightarrow> if b then tuple_eq xs ys else Inr False)"

text \<open>An instance of \<open>Location\<close> or of one of its subclasses.\<close>

datatype loc_obj =
  ALocation Location | ADatabaseLocation DatabaseLocation | AFileLocation FileLocation

fun class_of :: "loc_obj \<Rightarrow> pyclass" where
  "class_of (ALocation l) = C_Location"
| "class_of (ADatabaseLocation d) = DbClass (db_class d)"
| "class_of (AFileLocation f) = FileClass (file_class f)"

fun loc_id :: "loc_obj \<Rightarrow> nat" where
  "loc_id (ALocation l) = obj_id l"
| "loc_id (ADatabaseLocation d) = obj_id d"
| "loc_id (AFileLocation f) = obj_id f"

fun loc_allow_duplicates :: "loc_obj \<Rightarrow> bool" where
  "loc_allow_duplicates (ALocation l) = allow_duplicates l"
| "loc_allow_duplicates (ADatabaseLocation d) = allow_duplicates d"
| "loc_allow_duplicates (AFileLocation f) = allow_duplicates f"

text \<open>The class attribute \<open>_eq_keys\<close> (lines 13, 36 and 83).\<close>

definition Location_eq_keys :: "string list" where
  "Location_eq_keys = []"

fun eq_keys :: "pyclass \<Rightarrow> string list" where
  "eq_keys C_Location = Location_eq_keys"
| "eq_keys (DbClass c) = Location_eq_keys @ [''db_name'', ''access_code'', ''version'']"
| "eq_keys (FileClass c) = Location_eq_keys @ [''repo'', ''path'', ''content_type'']"

text \<open>\<open>getattr(self, x)\<close> on a location.\<close>

fun getattr :: "loc_obj \<Rightarrow> string \<Rightarrow> error + pyval" where
  "getattr (ALocation l) a =
     (if a = ''details'' then Inr (opt_str (details l)) else Inl (AttributeError a))"
| "getattr (ADatabaseLocation d) a =
     (if a = ''details'' then Inr (opt_str (details d))
      else if a = ''db_name'' then Inr (PyStr (db_name d))
      else if a = ''access_code'' then Inr (PyStr (access_code d))
      else if a = ''version'' then Inr (opt_str (version d))
      else Inl (AttributeError a))"
| "getattr (AFileLocation f) a =
     (if a = ''details'' then Inr (opt_str (details f))
      else if a = ''repo'' then Inr (opt_repo (repo f))
      else if a = ''path'' then Inr (PyStr (path f))
      else if a = ''content_type'' then Inr (opt_str (content_type f))
      else if a = ''file_size'' then
        Inr (case file_size f of None \<Rightarrow> PyNone | Some n \<Rightarrow> PyInt (int n))
      else Inl (AttributeError a))"

text \<open>The list comprehension of line 26; the first lookup that raises ends it.\<close>

fun getattrs :: "loc_obj \<Rightarrow> string list \<Rightarrow> error + pyval list" where
  "getattrs self [] = Inr []"
| "getattrs self (k # ks) =
     (case getattr self k of
        Inl e \<Rightarrow> Inl e
      | Inr v \<Rightarrow> (case getattrs self ks of Inl e \<Rightarrow> Inl e | Inr vs \<Rightarrow> Inr (v # vs)))"

text \<open>\<open>Location._eq_vals\<close>: the identity of the object, or the tuple of class and keys.\<close>

datatype eq_val = Ident nat | Tuple "pyval list"

definition eq_vals :: "loc_obj \<Rightarrow> error + eq_val" where
  "eq_vals self =
     (if loc_allow_duplicates self then Inr (Ident (loc_id self))
      else (case getattrs self (eq_keys (class_of self)) of
              Inl e \<Rightarrow> Inl e
            | Inr vs \<Rightarrow> Inr (Tuple ([PyType (class_of self)] @ vs))))"

text \<open>\<open>==\<close> on the results of \<open>_eq_vals\<close>: an integer never equals a tuple.\<close>

fun eq_val_eq :: "eq_val \<Rightarrow> eq_val \<Rightarrow> error + bool" where
  "eq_val_eq (Ident a) (Ident b) = Inr (a = b)"
| "eq_val_eq (Tuple xs) (Tuple ys) = tuple_eq xs ys"
| "eq_val_eq a b = Inr False"

text \<open>
  \<open>Location.__eq__\<close> (line 28): \<open>self._eq_vals() == other._eq_vals()\<close>, where \<open>other\<close> is any
  object. A location has the method; a class object of the hierarchy has it unbound, so
  calling it without an instance is a \<open>TypeError\<close>; any other value has no such
  attribute.
\<close>

datatype pyobj = PyVal pyval | PyLoc loc_obj

definition Location_eq :: "loc_obj \<Rightarrow> pyobj \<Rightarrow> error + bool" where
  "Location_eq self other =
     (case eq_vals self of
        Inl e \<Rightarrow> Inl e
      | Inr a \<Rightarrow>
          (case other of
             PyLoc ob \<Rightarrow> (case eq_vals ob of Inl e \<Rightarrow> Inl e | Inr b \<Rightarrow> eq_val_eq a b)
           | PyVal (PyType c) \<Rightarrow> Inl (TypeError ''_eq_vals'')
           | PyVal v \<Rightarrow> Inl (AttributeError ''_eq_vals'')))"

subsection \<open>Resolving a file location against repositories\<close>

definition startswith :: "string \<Rightarrow> string \<Rightarrow> bool" where
  "startswith s pre = (take (length pre) s = pre)"

text \<open>
  The loop of \<open>_update_in_repos\<close> (lines 186 to 192) over the repositories left, on the
  location as mutated so far. An exception leaves the location as it is at that moment.
\<close>

fun update_loop ::
  "os_env \<Rightarrow> string \<Rightarrow> Repository list \<Rightarrow> FileLocation \<Rightarrow> error option \<times> FileLocation" where
  "update_loop os orig_path [] fileloc = (None, fileloc)"
| "update_loop os orig_path (rp # repos) fileloc =
     (case Repository_root rp of
        Inl e \<Rightarrow> (Some e, fileloc)
      | Inr rt \<Rightarrow>
          (case relpath os orig_path rt of
             Inl e \<Rightarrow> (Some e, fileloc)
           | Inr rel \<Rightarrow>
               update_loop os orig_path repos
                 (if \<not> startswith rel ''..'' then
                    (if repo fileloc = None \<or> length (path fileloc) > length rel
                     then fileloc\<lparr>repo := Some rp, path := rel\<rparr>
                     else fileloc)
                  else fileloc)))"

text \<open>
  \<open>Repository._update_in_repos\<close>: the exception raised, if any, and the location after the
  call.
\<close>

definition update_in_repos ::
  "os_env \<Rightarrow> FileLocation \<Rightarrow> Repository list \<Rightarrow> error option \<times> FileLocation" where
  "update_in_repos os fileloc repos =
     (if truthy (repo fileloc) then (None, fileloc)
      else update_loop os (path fileloc) repos fileloc)"

subsection \<open>A POSIX instance of the operating system\<close>

text \<open>
  For concrete runs: the path functions as CPython's \<open>posixpath\<close> computes them, over
  a working directory and a table of the files that exist, keyed by absolute path, with
  their sizes. The table is consulted after the path is normalised, which agrees with
  the filesystem for paths of existing files written without a trailing slash and
  without \<open>..\<close> components; the concrete runs use such paths only.
\<close>

text \<open>\<open>s.split('/')\<close> and \<open>'/'.join(ws)\<close>.\<close>

fun split_sep :: "string \<Rightarrow> string list" where
  "split_sep [] = [[]]"
| "split_sep (c # cs) =
     (if c = CHR ''/'' then [] # split_sep cs
      else (case split_sep cs of [] \<Rightarrow> [[c]] | w # ws \<Rightarrow> (c # w) # ws))"

fun join_sep :: "string list \<Rightarrow> string" where
  "join_sep [] = []"
| "join_sep [w] = w"
| "join_sep (w # ws) = w @ ''/'' @ join_sep ws"

text \<open>
  The loop of \<open>normpath\<close> over the components: empty and \<open>.\<close> components are dropped, a
  \<open>..\<close> removes the component before it unless there is none to remove.
\<close>

fun norm_comps :: "bool \<Rightarrow> string list \<Rightarrow> string list \<Rightarrow> string list" where
  "norm_comps initial_slashes [] new_comps = new_comps"
| "norm_comps initial_slashes (cmp # comps) new_comps =
     (if cmp = [] \<or> cmp = ''.'' then norm_comps initial_slashes comps new_comps
      else if cmp \<noteq> ''..'' \<or> (\<not> initial_slashes \<and> new_comps = [])
              \<or> (new_comps \<noteq> [] \<and> last new_comps = ''..'')
        then norm_comps initial_slashes comps (new_comps @ [cmp])
      else if new_comps \<noteq> [] then norm_comps initial_slashes comps (butlast new_comps)
      else norm_comps initial_slashes comps new_comps)"

definition posix_normpath :: "string \<Rightarrow> string" where
  "posix_normpath p =
     (if p = [] then ''.''
      else
        let initial_slashes =
              (if startswith p ''/'' then
                 (if startswith p ''//'' \<and> \<not> startswith p ''///'' then 2 else 1)
               else (0::nat));
            comps = norm_comps (initial_slashes \<noteq> 0) (split_sep p) [];
            q = replicate initial_slashes CHR ''/'' @ join_sep comps
        in if q = [] then ''.'' else q)"

definition posix_join2 :: "string \<Rightarrow> string \<Rightarrow> string" where
  "posix_join2 a b =
     (if startswith b ''/'' then b
      else if a = [] \<or> last a = CHR ''/'' then a @ b
      else a @ ''/'' @ b)"

definition posix_join :: "string \<Rightarrow> string list \<Rightarrow> string" where
  "posix_join a ps = foldl posix_join2 a ps"

definition posix_abspath :: "string \<Rightarrow> string \<Rightarrow> string" where
  "posix_abspath cwd p =
     posix_normpath (if \<not> startswith p ''/'' then posix_join cwd [p] else p)"

fun common_len :: "string list \<Rightarrow> string list \<Rightarrow> nat" where
  "common_len (x # xs) (y # ys) = (if x = y then Suc (common_len xs ys) else 0)"
| "common_len xs ys = 0"

definition posix_relpath :: "string \<Rightarrow> string \<Rightarrow> string \<Rightarrow> error + string" where
  "posix_relpath cwd p start =
     (if p = [] then Inl (ValueError ''no path specified'')
      else
        let start_list = filter (\<lambda>x. x \<noteq> []) (split_sep (posix_abspath cwd start));
            path_list = filter (\<lambda>x. x \<noteq> []) (split_sep (posix_abspath cwd p));
            i = common_len start_list path_list;
            rel_list = replicate (length start_list - i) ''..'' @ drop i path_list
        in (case rel_list of [] \<Rightarrow> Inr ''.'' | a # ps \<Rightarrow> Inr (posix_join a ps)))"

definition posix_os :: "string \<Rightarrow> (string \<rightharpoonup> nat) \<Rightarrow> os_env" where
  "posix_os cwd files =
     \<lparr>path_exists = (\<lambda>p. files (posix_abspath cwd p) \<noteq> None),
      stat_size = (\<lambda>p. files (posix_abspath cwd p)),
      abspath = posix_abspath cwd,
      relpath = posix_relpath cwd\<rparr>"

subsection \<open>The test the loop makes\<close>

text \<open>
  A repository can be tried when it has a root and the file's path can be expressed
  relative to it.
\<close>

definition resolvable :: "os_env \<Rightarrow> string \<Rightarrow> Repository \<Rightarrow> bool" where
  "resolvable os p r =
     (case root r of
        None \<Rightarrow> False
      | Some rt \<Rightarrow> (case relpath os p rt of Inl e \<Rightarrow> False | Inr rel \<Rightarrow> True))"

text \<open>
  What lines 187 and 188 compute for one repository: the path relative to its root when
  the test \<open>not relpath.startswith('..')\<close> passes, \<open>None\<close> when it does not. The test looks
  at the first two characters of the relative path.
\<close>

definition accepted_rel :: "os_env \<Rightarrow> string \<Rightarrow> Repository \<Rightarrow> string option" where
  "accepted_rel os p r =
     (case root r of
        None \<Rightarrow> None
      | Some rt \<Rightarrow>
          (case relpath os p rt of
             Inl e \<Rightarrow> None
           | Inr rel \<Rightarrow> if startswith rel ''..'' then None else Some rel))"

text \<open>
  Every repository of a list that passes the test has a relative path that satisfies
  \<open>Q\<close>.
\<close>

definition all_accepted ::
  "(string \<Rightarrow> bool) \<Rightarrow> os_env \<Rightarrow> string \<Rightarrow> Repository list \<Rightarrow> bool" where
  "all_accepted Q os p rs =
     list_all (\<lambda>r. case accepted_rel os p r of None \<Rightarrow> True | Some rel \<Rightarrow> Q rel) rs"

subsection \<open>The match as the specification words it\<close>

text \<open>
  A relative path escapes the root when it starts with the parent-directory traversal
  marker, that is, when its first component is \<open>..\<close>.
\<close>

definition parent_traversal :: "string \<Rightarrow> bool" where
  "parent_traversal rel = (case split_sep rel of [] \<Rightarrow> False | c # cs \<Rightarrow> c = ''..'')"

text \<open>
  A repository matches when the file's path relative to its root does not escape the
  root; \<open>match_rel\<close> is that relative path, or \<open>None\<close> for a repository that does not
  match.
\<close>

definition match_rel :: "os_env \<Rightarrow> string \<Rightarrow> Repository \<Rightarrow> string option" where
  "match_rel os p r =
     (case root r of
        None \<Rightarrow> None
      | Some rt \<Rightarrow>
          (case relpath os p rt of
             Inl e \<Rightarrow> None
           | Inr rel \<Rightarrow> if parent_traversal rel then None else Some rel))"

subsection \<open>Equality as the specification words it\<close>

text \<open>
  Equal values of the key attributes. Two \<open>repo\<close> values are equal when both are unset
  or both are repositories that compare equal.
\<close>

fun repo_equal :: "Repository option \<Rightarrow> Repository option \<Rightarrow> bool" where
  "repo_equal None None = True"
| "repo_equal (Some a) (Some b) = (doi a = doi b \<and> url a = url b)"
| "repo_equal a b = False"

fun same_keys :: "loc_obj \<Rightarrow> loc_obj \<Rightarrow> bool" where
  "same_keys (ALocation a) (ALocation b) = True"
| "same_keys (ADatabaseLocation a) (ADatabaseLocation b) =
     (db_name a = db_name b \<and> access_code a = access_code b \<and> version a = version b)"
| "same_keys (AFileLocation a) (AFileLocation b) =
     (repo_equal (repo a) (repo b) \<and> path a = path b \<and> content_type a = content_type b)"
| "same_keys a b = False"

text \<open>Two file locations of one class, exactly one of which has a repository.\<close>

fun one_sided_repo :: "loc_obj \<Rightarrow> loc_obj \<Rightarrow> bool" where
  "one_sided_repo (AFileLocation a) (AFileLocation b) =
     (file_class a = file_class b \<and> (repo a = None) \<noteq> (repo b = None))"
| "one_sided_repo a b = False"

subsection \<open>Example objects\<close>

text \<open>
  A working directory \<open>/home/u\<close> and three files, with the locations and repositories
  the concrete runs below are made on.
\<close>

definition example_os :: os_env where
  "example_os =
     posix_os ''/home/u''
       [''/home/u/data/in.txt'' \<mapsto> 42, ''/data/proj/sub/file.txt'' \<mapsto> 1024,
        ''/data/proj/..hidden'' \<mapsto> 7]"

definition local_in :: FileLocation where
  "local_in =
     \<lparr>obj_id = 1, allow_duplicates = False, details = None,
      file_class = C_InputFileLocation, repo = None,
      path = ''/home/u/data/in.txt'', file_size = Some 42\<rparr>"

definition local_file :: FileLocation where
  "local_file =
     \<lparr>obj_id = 2, allow_duplicates = False, details = None,
      file_class = C_FileLocation, repo = None,
      path = ''/data/proj/sub/file.txt'', file_size = Some 1024\<rparr>"

definition local_hidden :: FileLocation where
  "local_hidden =
     \<lparr>obj_id = 7, allow_duplicates = False, details = None,
      file_class = C_FileLocation, repo = None,
      path = ''/data/proj/..hidden'', file_size = Some 7\<rparr>"

definition repo_proj :: Repository where
  "repo_proj = Repository_init example_os ''10.5281/zenodo.46266'' (Some ''/data/proj'') None None"

definition repo_sub :: Repository where
  "repo_sub =
     Repository_init example_os ''10.5281/zenodo.820724'' (Some ''/data/proj/sub'') None None"

definition repo_unrooted :: Repository where
  "repo_unrooted = Repository_init example_os ''10.5281/zenodo.46266'' None None None"

definition repo_mirror :: Repository where
  "repo_mirror =
     Repository_init example_os ''10.5281/zenodo.1218053'' (Some ''/data/proj/sub/'') None None"

definition bound_in :: FileLocation where
  "bound_in =
     \<lparr>obj_id = 4, allow_duplicates = False, details = None,
      file_class = C_InputFileLocation, repo = Some repo_proj,
      path = ''/home/u/data/in.txt'', file_size = None\<rparr>"

section \<open>Properties\<close>

lemmas posix_defs = example_os_def posix_os_def posix_abspath_def posix_normpath_def
  posix_relpath_def posix_join_def posix_join2_def startswith_def

lemmas example_defs = local_in_def local_file_def local_hidden_def bound_in_def repo_proj_def repo_sub_def
  repo_unrooted_def repo_mirror_def Repository_init_def

lemma example_roots:
  "root repo_proj = Some ''/data/proj''" "root repo_sub = Some ''/data/proj/sub''"
  "root repo_mirror = Some ''/data/proj/sub''" "root repo_unrooted = None"
  by (simp_all add: example_defs posix_defs)

lemma example_relpaths:
  "relpath example_os ''/data/proj/sub/file.txt'' ''/data/proj'' = Inr ''sub/file.txt''"
  "relpath example_os ''/data/proj/sub/file.txt'' ''/data/proj/sub'' = Inr ''file.txt''"
  "relpath example_os ''/home/u/data/in.txt'' ''/data/proj'' = Inr ''../../home/u/data/in.txt''"
  "relpath example_os ''/home/u/data/in.txt'' ''/data/proj/sub'' =
     Inr ''../../../home/u/data/in.txt''"
  by (simp_all add: posix_defs)

text \<open>
  On POSIX every repository with a root can be tried for every non-empty path: \<open>relpath\<close>
  raises for the empty path only.
\<close>

lemma posix_resolvable:
  "p \<noteq> [] \<Longrightarrow> root r = Some rt \<Longrightarrow> resolvable (posix_os cwd files) p r"
  by (simp add: resolvable_def posix_os_def posix_relpath_def Let_def split: list.splits)

subsection \<open>Construction of a file location\<close>

text \<open>
  C1. Constructing a \<open>FileLocation\<close> of any class with no repository, on a path that
  \<open>os.path.exists\<close> reports missing, raises the error of line 101 (the specification's
  \<open>NotFoundError\<close> kind, a \<open>ValueError\<close> in the code) whose message starts with the
  path, after the existence check alone.
\<close>

theorem FileLocation_init_missing_path:
  "\<not> path_exists os p \<Longrightarrow>
   FileLocation_init os oid c p None dt =
     (Inl (ValueError (p @ '' does not exist'')), [Q_exists p])"
  by (simp add: FileLocation_init_def truthy_def)

theorem FileLocation_init_missing_path_witness:
  "\<not> path_exists example_os ''nonexistent/path'' \<and>
   FileLocation_init example_os 3 C_FileLocation ''nonexistent/path'' None None =
     (Inl (ValueError ''nonexistent/path does not exist''), [Q_exists ''nonexistent/path''])"
proof -
  have h: "\<not> path_exists example_os ''nonexistent/path''"
    by (simp add: posix_defs)
  show ?thesis
    using h FileLocation_init_missing_path [OF h, of 3 C_FileLocation None] by simp
qed

text \<open>
  C7. Constructing a \<open>FileLocation\<close> with no repository on a path that exists and whose
  size is \<open>S\<close> yields an object with \<open>file_size\<close> equal to \<open>S\<close> and \<open>path\<close> equal to
  \<open>os.path.abspath\<close> of the argument.
\<close>

theorem FileLocation_init_local:
  "path_exists os p \<Longrightarrow> stat_size os p = Some S \<Longrightarrow>
   FileLocation_init os oid c p None dt =
     (Inr \<lparr>obj_id = oid, allow_duplicates = False, details = dt,
           file_class = c, repo = None, path = abspath os p, file_size = Some S\<rparr>,
      [Q_exists p, Q_stat p])"
  by (simp add: FileLocation_init_def truthy_def)

theorem FileLocation_init_local_witness:
  "path_exists example_os ''data/in.txt'' \<and> stat_size example_os ''data/in.txt'' = Some 42 \<and>
   FileLocation_init example_os 1 C_InputFileLocation ''data/in.txt'' None None =
     (Inr local_in, [Q_exists ''data/in.txt'', Q_stat ''data/in.txt''])"
proof -
  have e: "path_exists example_os ''data/in.txt''"
    by (simp add: posix_defs)
  have s: "stat_size example_os ''data/in.txt'' = Some 42"
    by (simp add: posix_defs)
  have a: "abspath example_os ''data/in.txt'' = ''/home/u/data/in.txt''"
    by (simp add: posix_defs)
  show ?thesis
    using e s FileLocation_init_local [OF e s, of 1 C_InputFileLocation None]
    by (simp add: a local_in_def)
qed

text \<open>
  C8. Constructing a \<open>FileLocation\<close> with a repository makes no filesystem query, keeps
  the path as passed and leaves \<open>file_size\<close> unset, whatever the operating system would
  answer.
\<close>

theorem FileLocation_init_in_repo:
  "FileLocation_init os oid c p (Some r) dt =
     (Inr \<lparr>obj_id = oid, allow_duplicates = False, details = dt,
           file_class = c, repo = Some r, path = p, file_size = None\<rparr>, [])"
  by (simp add: FileLocation_init_def truthy_def)

subsection \<open>Equality of repositories\<close>

text \<open>
  C9. For two repositories, \<open>a == b\<close> returns whether their \<open>doi\<close> and \<open>url\<close> are equal;
  changing \<open>root\<close> or \<open>top_directory\<close> on either side does not change the answer.
\<close>

theorem Repository_eq_doi_url:
  "py_eq (PyRepository a) (PyRepository b) = Inr (doi a = doi b \<and> url a = url b) \<and>
   py_eq (PyRepository (a\<lparr>root := ra, top_directory := ta\<rparr>))
         (PyRepository (b\<lparr>root := rb, top_directory := tb\<rparr>)) =
     py_eq (PyRepository a) (PyRepository b)"
  by (cases "url a"; cases "url b") (auto simp add: Repository_eq_def)

subsection \<open>Equality of locations\<close>

text \<open>
  \<open>_eq_vals\<close> never raises: every key of a class is an attribute of its instances.
\<close>

lemma eq_vals_total:
  "eq_vals a =
     Inr (if loc_allow_duplicates a then Ident (loc_id a)
          else Tuple (PyType (class_of a) #
            (case a of
               ALocation l \<Rightarrow> []
             | ADatabaseLocation d \<Rightarrow>
                 [PyStr (db_name d), PyStr (access_code d), opt_str (version d)]
             | AFileLocation f \<Rightarrow>
                 [opt_repo (repo f), PyStr (path f), opt_str (content_type f)])))"
  by (cases a) (simp_all add: eq_vals_def Location_eq_keys_def)

lemma opt_str_eq_iff: "(opt_str x = opt_str y) = (x = y)"
  by (cases x; cases y) simp_all

lemma py_eq_opt_str: "py_eq (opt_str x) (opt_str y) = Inr (x = y)"
  by (cases x; cases y) simp_all

lemma py_eq_opt_repo:
  "(x = None) = (y = None) \<Longrightarrow> py_eq (opt_repo x) (opt_repo y) = Inr (repo_equal x y)"
  by (cases x; cases y) (auto simp add: Repository_eq_def opt_str_eq_iff)

lemma py_eq_opt_repo_one_sided:
  "(x = None) \<noteq> (y = None) \<Longrightarrow> py_eq (opt_repo x) (opt_repo y) = Inl (AttributeError ''doi'')"
  by (cases x; cases y) (auto simp add: Repository_eq_def)

text \<open>
  Where \<open>Location.__eq__\<close> returns, it returns what the comment of lines 19 and 20
  says: for two locations that do not allow duplicates, unless they are file locations of
  one class of which exactly one has a repository, \<open>a == b\<close> is true exactly when the
  classes are the same and the key attributes are equal. \<open>details\<close>, \<open>file_size\<close> and the
  \<open>root\<close> and \<open>top_directory\<close> of the repository are not looked at.
\<close>

lemma Location_eq_returns:
  "\<not> loc_allow_duplicates a \<Longrightarrow> \<not> loc_allow_duplicates b \<Longrightarrow> \<not> one_sided_repo a b \<Longrightarrow>
   Location_eq a (PyLoc b) = Inr (class_of a = class_of b \<and> same_keys a b)"
  by (cases a; cases b)
     (auto simp add: Location_eq_def eq_vals_total py_eq_opt_str py_eq_opt_repo)

text \<open>
  In particular, locations of different classes are unequal whatever their attributes,
  and a location equals a copy of itself that differs in \<open>details\<close> (and in identity, and
  for a file location in \<open>file_size\<close>).
\<close>

lemma Location_eq_different_class:
  "\<not> loc_allow_duplicates a \<Longrightarrow> \<not> loc_allow_duplicates b \<Longrightarrow>
   class_of a \<noteq> class_of b \<Longrightarrow> Location_eq a (PyLoc b) = Inr False"
  by (cases a; cases b) (auto simp add: Location_eq_def eq_vals_total)

lemma Location_eq_ignores_details:
  "\<not> allow_duplicates d \<Longrightarrow>
   Location_eq (ADatabaseLocation d)
     (PyLoc (ADatabaseLocation (d\<lparr>details := x, obj_id := n\<rparr>))) = Inr True"
  "\<not> allow_duplicates f \<Longrightarrow>
   Location_eq (AFileLocation f)
     (PyLoc (AFileLocation (f\<lparr>details := x, obj_id := n, file_size := s\<rparr>))) = Inr True"
  "\<not> allow_duplicates l \<Longrightarrow>
   Location_eq (ALocation l) (PyLoc (ALocation (l\<lparr>details := x, obj_id := n\<rparr>))) = Inr True"
  by (simp_all add: Location_eq_returns content_type_def) (cases "repo f"; simp)

text \<open>
  In the remaining case the comparison of the two \<open>repo\<close> values, \<open>None\<close> against a
  repository, reaches \<open>Repository.__eq__\<close> with \<open>None\<close> as \<open>other\<close>, and the lookup
  \<open>other.doi\<close> raises.
\<close>

lemma Location_eq_one_sided:
  "\<not> loc_allow_duplicates a \<Longrightarrow> \<not> loc_allow_duplicates b \<Longrightarrow> one_sided_repo a b \<Longrightarrow>
   Location_eq a (PyLoc b) = Inl (AttributeError ''doi'')"
  by (cases a; cases b)
     (auto simp add: Location_eq_def eq_vals_total py_eq_opt_repo_one_sided)

text \<open>
  C6. The claim is that for every two locations that do not allow duplicates, \<open>a == b\<close>
  holds exactly when they have the same class and equal key attributes, so that it is
  false for \<open>local_in\<close> and \<open>bound_in\<close>, two input file locations of the same path, as
  their constructors return them, of which only the second has a repository. The code
  does not return there: in both orders the comparison raises an \<open>AttributeError\<close> from
  line 141.
\<close>

theorem Location_eq_one_sided_repo_raises:
  "fst (FileLocation_init example_os 1 C_InputFileLocation ''data/in.txt'' None None) =
     Inr local_in \<and>
   fst (FileLocation_init example_os 4 C_InputFileLocation ''/home/u/data/in.txt''
          (Some repo_proj) None) = Inr bound_in \<and>
   class_of (AFileLocation local_in) = class_of (AFileLocation bound_in) \<and>
   loc_allow_duplicates (AFileLocation local_in) = False \<and>
   loc_allow_duplicates (AFileLocation bound_in) = False \<and>
   same_keys (AFileLocation local_in) (AFileLocation bound_in) = False \<and>
   Location_eq (AFileLocation local_in) (PyLoc (AFileLocation bound_in)) =
     Inl (AttributeError ''doi'') \<and>
   Location_eq (AFileLocation bound_in) (PyLoc (AFileLocation local_in)) =
     Inl (AttributeError ''doi'')"
  by (simp add: Location_eq_def eq_vals_def Location_eq_keys_def local_in_def bound_in_def
        Repository_eq_def FileLocation_init_def truthy_def posix_defs)

text \<open>
  A value that is not a location can never be compared: the call raises.
\<close>

lemma Location_eq_no_method:
  "\<exists>e. Location_eq self (PyVal v) = Inl e"
  by (auto simp add: Location_eq_def split: sum.splits pyval.splits)

text \<open>
  C3. The claim is that comparing a location with an object of an unrelated type returns
  not-equal without raising. The code of line 28 calls \<open>other._eq_vals()\<close> unguarded: with
  \<open>None\<close>, a string, an integer or a repository as \<open>other\<close> the comparison raises an
  \<open>AttributeError\<close>.
\<close>

theorem Location_eq_unrelated_raises:
  "Location_eq (ALocation (Location_init 5 (Some ''foo''))) (PyVal PyNone) =
     Inl (AttributeError ''_eq_vals'') \<and>
   Location_eq (AFileLocation local_in) (PyVal (PyStr ''/home/u/data/in.txt'')) =
     Inl (AttributeError ''_eq_vals'') \<and>
   Location_eq (ADatabaseLocation (PDBLocation_init 6 ''1abc'' None None)) (PyVal (PyInt 3)) =
     Inl (AttributeError ''_eq_vals'') \<and>
   Location_eq (AFileLocation bound_in) (PyVal (PyRepository repo_proj)) =
     Inl (AttributeError ''_eq_vals'')"
  by (simp add: Location_eq_def eq_vals_def Location_init_def PDBLocation_init_def
        DatabaseLocation_init_def Location_eq_keys_def local_in_def bound_in_def)

subsection \<open>Resolution against repositories\<close>

text \<open>
  Whatever the loop does, it only ever assigns \<open>repo\<close> and \<open>path\<close>: any function of a
  file location that ignores these two fields has the same value before and after.
\<close>

lemma update_loop_preserves:
  assumes g: "\<And>f a b. g (f\<lparr>repo := a, path := b\<rparr>) = g (f::FileLocation)"
  shows "g (snd (update_loop os orig repos fl)) = g fl"
proof (induction repos arbitrary: fl)
  case Nil
  show ?case by simp
next
  case (Cons rp repos)
  show ?case
  proof (cases "Repository_root rp")
    case (Inl e)
    then show ?thesis by simp
  next
    case (Inr rt)
    note rt = this
    show ?thesis
    proof (cases "relpath os orig rt")
      case (Inl e)
      with rt show ?thesis by simp
    next
      case (Inr rel)
      with rt show ?thesis by (simp add: Cons.IH g)
    qed
  qed
qed

lemma update_in_repos_preserves:
  assumes g: "\<And>f a b. g (f\<lparr>repo := a, path := b\<rparr>) = g (f::FileLocation)"
  shows "g (snd (update_in_repos os fl repos)) = g fl"
  by (simp add: update_in_repos_def update_loop_preserves [of g, OF g])

text \<open>
  C10. After \<open>_update_in_repos\<close>, whether it returned or raised and whether or not a
  repository matched, the location differs from the one passed at most in \<open>repo\<close> and
  \<open>path\<close>; \<open>details\<close>, \<open>file_size\<close> and \<open>content_type\<close> are the same.
\<close>

theorem update_in_repos_frame:
  "snd (update_in_repos os fl repos) =
     fl\<lparr>repo := repo (snd (update_in_repos os fl repos)),
        path := path (snd (update_in_repos os fl repos))\<rparr> \<and>
   details (snd (update_in_repos os fl repos)) = details fl \<and>
   file_size (snd (update_in_repos os fl repos)) = file_size fl \<and>
   content_type (snd (update_in_repos os fl repos)) = content_type fl"
proof -
  let ?fl' = "snd (update_in_repos os fl repos)"
  have e: "?fl'\<lparr>repo := None, path := []\<rparr> = fl\<lparr>repo := None, path := []\<rparr>"
    by (rule update_in_repos_preserves) simp
  have "?fl' = ?fl'\<lparr>repo := None, path := []\<rparr>\<lparr>repo := repo ?fl', path := path ?fl'\<rparr>"
    by simp
  also have "\<dots> = fl\<lparr>repo := repo ?fl', path := path ?fl'\<rparr>"
    by (simp only: e) simp
  finally have 1: "?fl' = fl\<lparr>repo := repo ?fl', path := path ?fl'\<rparr>" .
  have 2: "details ?fl' = details fl" by (rule update_in_repos_preserves) simp
  have 3: "file_size ?fl' = file_size fl" by (rule update_in_repos_preserves) simp
  have 4: "content_type ?fl' = content_type fl"
    by (rule update_in_repos_preserves) (simp add: content_type_def)
  from 1 2 3 4 show ?thesis by blast
qed

text \<open>
  C5. On a location whose \<open>repo\<close> is set, \<open>_update_in_repos\<close> returns at line 184 with
  the location as it was, for any repositories (also ones without a root); so a second
  call on it, with any operating system and repositories, changes nothing either.
\<close>

theorem update_in_repos_bound_noop:
  "repo fl = Some r \<Longrightarrow>
   update_in_repos os fl repos = (None, fl) \<and>
   update_in_repos os' (snd (update_in_repos os fl repos)) repos' = (None, fl)"
  by (simp add: update_in_repos_def truthy_def)

theorem update_in_repos_bound_noop_witness:
  "repo (local_file\<lparr>repo := Some repo_sub, path := ''file.txt''\<rparr>) = Some repo_sub \<and>
   update_in_repos example_os (local_file\<lparr>repo := Some repo_sub, path := ''file.txt''\<rparr>)
     [repo_proj, repo_unrooted] =
     (None, local_file\<lparr>repo := Some repo_sub, path := ''file.txt''\<rparr>)"
proof -
  have h: "repo (local_file\<lparr>repo := Some repo_sub, path := ''file.txt''\<rparr>) = Some repo_sub"
    by simp
  show ?thesis
    using h update_in_repos_bound_noop [OF h, of example_os "[repo_proj, repo_unrooted]"]
    by simp
qed

text \<open>
  One pass of the loop for a repository that can be tried, in terms of \<open>accepted_rel\<close>.
\<close>

lemma update_loop_step:
  "resolvable os p x \<Longrightarrow>
   update_loop os p (x # xs) fl =
     update_loop os p xs
       (case accepted_rel os p x of
          None \<Rightarrow> fl
        | Some rel \<Rightarrow>
            if repo fl = None \<or> length rel < length (path fl)
            then fl\<lparr>repo := Some x, path := rel\<rparr> else fl)"
  by (auto simp add: resolvable_def accepted_rel_def Repository_root_def
           split: option.splits sum.splits)

lemma all_accepted_Cons:
  "all_accepted Q os p (x # xs) =
     ((case accepted_rel os p x of None \<Rightarrow> True | Some rel \<Rightarrow> Q rel) \<and> all_accepted Q os p xs)"
  by (simp add: all_accepted_def)

lemma update_loop_no_match:
  "list_all (resolvable os p) repos \<Longrightarrow> all_accepted (\<lambda>x. False) os p repos \<Longrightarrow>
   update_loop os p repos fl = (None, fl)"
proof (induction repos)
  case Nil
  show ?case by simp
next
  case (Cons x xs)
  from Cons.prems have m: "accepted_rel os p x = None"
    by (simp add: all_accepted_Cons split: option.splits)
  from Cons.prems have "resolvable os p x" by simp
  then show ?case using Cons m by (simp add: update_loop_step all_accepted_Cons del: update_loop.simps(2))
qed

lemma update_loop_settled:
  "repo fl \<noteq> None \<Longrightarrow> list_all (resolvable os p) post \<Longrightarrow>
   all_accepted (\<lambda>x. length (path fl) \<le> length x) os p post \<Longrightarrow>
   update_loop os p post fl = (None, fl)"
proof (induction post)
  case Nil
  show ?case by simp
next
  case (Cons x xs)
  from Cons.prems have r: "resolvable os p x" by simp
  show ?case
  proof (cases "accepted_rel os p x")
    case None
    with Cons r show ?thesis by (simp add: update_loop_step all_accepted_Cons del: update_loop.simps(2))
  next
    case (Some rel)
    with Cons.prems have "length (path fl) \<le> length rel" by (simp add: all_accepted_Cons)
    with Some Cons r show ?thesis
      by (auto simp add: update_loop_step all_accepted_Cons simp del: update_loop.simps(2))
  qed
qed

lemma update_loop_first_shortest:
  "repo fl = None \<or> length rel < length (path fl) \<Longrightarrow>
   list_all (resolvable os p) (pre @ r # post) \<Longrightarrow>
   accepted_rel os p r = Some rel \<Longrightarrow>
   all_accepted (\<lambda>x. length rel < length x) os p pre \<Longrightarrow>
   all_accepted (\<lambda>x. length rel \<le> length x) os p post \<Longrightarrow>
   update_loop os p (pre @ r # post) fl = (None, fl\<lparr>repo := Some r, path := rel\<rparr>)"
proof (induction pre arbitrary: fl)
  case Nil
  from Nil.prems have r: "resolvable os p r" and ps: "list_all (resolvable os p) post"
    by simp_all
  let ?fl = "fl\<lparr>repo := Some r, path := rel\<rparr>"
  have "update_loop os p (r # post) fl = update_loop os p post ?fl"
    using Nil.prems(1,3) by (auto simp add: update_loop_step [OF r] simp del: update_loop.simps(2))
  also have "\<dots> = (None, ?fl)"
    using Nil.prems(5) ps by (intro update_loop_settled) simp_all
  finally show ?case by simp
next
  case (Cons x xs)
  from Cons.prems have x: "resolvable os p x"
    and rest: "list_all (resolvable os p) (xs @ r # post)" by simp_all
  from Cons.prems have pre: "all_accepted (\<lambda>x. length rel < length x) os p xs"
    by (simp add: all_accepted_Cons)
  show ?case
  proof (cases "accepted_rel os p x")
    case None
    then have "update_loop os p ((x # xs) @ r # post) fl = update_loop os p (xs @ r # post) fl"
      by (simp add: update_loop_step [OF x] del: update_loop.simps(2))
    with Cons.IH [OF Cons.prems(1) rest Cons.prems(3) pre Cons.prems(5)] show ?thesis by simp
  next
    case (Some relx)
    with Cons.prems(4) have lt: "length rel < length relx" by (simp add: all_accepted_Cons)
    let ?fl = "if repo fl = None \<or> length relx < length (path fl)
               then fl\<lparr>repo := Some x, path := relx\<rparr> else fl"
    have step: "update_loop os p ((x # xs) @ r # post) fl = update_loop os p (xs @ r # post) ?fl"
      using Some by (simp add: update_loop_step [OF x] del: update_loop.simps(2))
    have inv: "repo ?fl = None \<or> length rel < length (path ?fl)"
      using Cons.prems(1) lt by auto
    have "update_loop os p (xs @ r # post) ?fl = (None, ?fl\<lparr>repo := Some r, path := rel\<rparr>)"
      by (rule Cons.IH [OF inv rest Cons.prems(3) pre Cons.prems(5)])
    moreover have "?fl\<lparr>repo := Some r, path := rel\<rparr> = fl\<lparr>repo := Some r, path := rel\<rparr>"
      by simp
    ultimately show ?thesis using step by simp
  qed
qed

lemma all_accepted_append:
  "all_accepted Q os p (xs @ ys) = (all_accepted Q os p xs \<and> all_accepted Q os p ys)"
  by (simp add: all_accepted_def)

lemma all_accepted_mono:
  "all_accepted Q os p xs \<Longrightarrow> (\<And>x. Q x \<Longrightarrow> Q' x) \<Longrightarrow> all_accepted Q' os p xs"
  by (induction xs) (auto simp add: all_accepted_def split: option.splits)

lemma first_shortest_exists:
  "all_accepted (\<lambda>x. False) os p repos \<or>
   (\<exists>pre r post rel. repos = pre @ r # post \<and> accepted_rel os p r = Some rel \<and>
      all_accepted (\<lambda>x. length rel < length x) os p pre \<and>
      all_accepted (\<lambda>x. length rel \<le> length x) os p post)"
proof (induction repos)
  case Nil
  show ?case by (simp add: all_accepted_def)
next
  case (Cons x xs)
  show ?case
  proof (cases "accepted_rel os p x")
    case None
    from Cons.IH show ?thesis
    proof
      assume "all_accepted (\<lambda>x. False) os p xs"
      with None show ?thesis by (simp add: all_accepted_Cons)
    next
      assume "\<exists>pre r post rel. xs = pre @ r # post \<and> accepted_rel os p r = Some rel \<and>
        all_accepted (\<lambda>x. length rel < length x) os p pre \<and>
        all_accepted (\<lambda>x. length rel \<le> length x) os p post"
      then obtain pre r post rel where d: "xs = pre @ r # post"
        "accepted_rel os p r = Some rel"
        "all_accepted (\<lambda>x. length rel < length x) os p pre"
        "all_accepted (\<lambda>x. length rel \<le> length x) os p post" by blast
      have "x # xs = (x # pre) @ r # post" using d(1) by simp
      moreover have "all_accepted (\<lambda>x. length rel < length x) os p (x # pre)"
        using None d(3) by (simp add: all_accepted_Cons)
      ultimately show ?thesis using d(2,4) by blast
    qed
  next
    case (Some relx)
    from Cons.IH show ?thesis
    proof
      assume "all_accepted (\<lambda>x. False) os p xs"
      then have "all_accepted (\<lambda>y. length relx \<le> length y) os p xs"
        by (rule all_accepted_mono) simp
      moreover have "x # xs = [] @ x # xs" by simp
      moreover have "all_accepted (\<lambda>y. length relx < length y) os p []"
        by (simp add: all_accepted_def)
      ultimately show ?thesis using Some by blast
    next
      assume "\<exists>pre r post rel. xs = pre @ r # post \<and> accepted_rel os p r = Some rel \<and>
        all_accepted (\<lambda>x. length rel < length x) os p pre \<and>
        all_accepted (\<lambda>x. length rel \<le> length x) os p post"
      then obtain pre r post rel where d: "xs = pre @ r # post"
        "accepted_rel os p r = Some rel"
        "all_accepted (\<lambda>x. length rel < length x) os p pre"
        "all_accepted (\<lambda>x. length rel \<le> length x) os p post" by blast
      show ?thesis
      proof (cases "length relx \<le> length rel")
        case True
        have 1: "all_accepted (\<lambda>y. length relx \<le> length y) os p pre"
          using d(3) by (rule all_accepted_mono) (use True in simp)
        have 2: "all_accepted (\<lambda>y. length relx \<le> length y) os p post"
          using d(4) by (rule all_accepted_mono) (use True in simp)
        have "all_accepted (\<lambda>y. length relx \<le> length y) os p xs"
          using 1 2 d(1,2) True by (simp add: all_accepted_append all_accepted_Cons)
        moreover have "x # xs = [] @ x # xs" by simp
        moreover have "all_accepted (\<lambda>y. length relx < length y) os p []"
          by (simp add: all_accepted_def)
        ultimately show ?thesis using Some by blast
      next
        case False
        have "x # xs = (x # pre) @ r # post" using d(1) by simp
        moreover have "all_accepted (\<lambda>x. length rel < length x) os p (x # pre)"
          using Some d(3) False by (simp add: all_accepted_Cons)
        ultimately show ?thesis using d(2,4) by blast
      qed
    qed
  qed
qed

text \<open>
  The selection among the repositories that pass the test of line 188. For a location
  with no repository and repositories that all have a root (and for which \<open>relpath\<close>
  returns), \<open>_update_in_repos\<close> returns normally and: if no repository passes the test,
  the location is unchanged; if \<open>r\<close> passes with relative path \<open>rel\<close>, every repository
  before \<open>r\<close> in the sequence that passes has a strictly longer relative path and every
  one after it has one at least as long, then the location is bound to \<open>r\<close> with path
  \<open>rel\<close>. One of the two cases always applies.
\<close>

lemma update_in_repos_selects:
  assumes "repo fl = None" and "list_all (resolvable os (path fl)) repos"
  shows "(all_accepted (\<lambda>x. False) os (path fl) repos \<longrightarrow>
            update_in_repos os fl repos = (None, fl)) \<and>
         (repos = pre @ r # post \<and> accepted_rel os (path fl) r = Some rel \<and>
          all_accepted (\<lambda>x. length rel < length x) os (path fl) pre \<and>
          all_accepted (\<lambda>x. length rel \<le> length x) os (path fl) post \<longrightarrow>
            update_in_repos os fl repos = (None, fl\<lparr>repo := Some r, path := rel\<rparr>)) \<and>
         (all_accepted (\<lambda>x. False) os (path fl) repos \<or>
          (\<exists>pre r post rel. repos = pre @ r # post \<and> accepted_rel os (path fl) r = Some rel \<and>
             all_accepted (\<lambda>x. length rel < length x) os (path fl) pre \<and>
             all_accepted (\<lambda>x. length rel \<le> length x) os (path fl) post))"
proof (intro conjI impI)
  assume "all_accepted (\<lambda>x. False) os (path fl) repos"
  with assms show "update_in_repos os fl repos = (None, fl)"
    by (simp add: update_in_repos_def truthy_def update_loop_no_match)
next
  assume a: "repos = pre @ r # post \<and> accepted_rel os (path fl) r = Some rel \<and>
          all_accepted (\<lambda>x. length rel < length x) os (path fl) pre \<and>
          all_accepted (\<lambda>x. length rel \<le> length x) os (path fl) post"
  with assms(2) have rs: "list_all (resolvable os (path fl)) (pre @ r # post)" by simp
  have "update_loop os (path fl) (pre @ r # post) fl = (None, fl\<lparr>repo := Some r, path := rel\<rparr>)"
    using assms(1) rs a by (intro update_loop_first_shortest) simp_all
  with a assms(1) show "update_in_repos os fl repos = (None, fl\<lparr>repo := Some r, path := rel\<rparr>)"
    by (simp add: update_in_repos_def truthy_def)
next
  show "all_accepted (\<lambda>x. False) os (path fl) repos \<or>
          (\<exists>pre r post rel. repos = pre @ r # post \<and> accepted_rel os (path fl) r = Some rel \<and>
             all_accepted (\<lambda>x. length rel < length x) os (path fl) pre \<and>
             all_accepted (\<lambda>x. length rel \<le> length x) os (path fl) post)"
    by (rule first_shortest_exists)
qed

lemma update_in_repos_selects_run:
  "repo local_file = None \<and>
   list_all (resolvable example_os (path local_file)) [repo_proj, repo_sub] \<and>
   accepted_rel example_os (path local_file) repo_proj = Some ''sub/file.txt'' \<and>
   accepted_rel example_os (path local_file) repo_sub = Some ''file.txt'' \<and>
   update_in_repos example_os local_file [repo_proj, repo_sub] =
     (None, local_file\<lparr>repo := Some repo_sub, path := ''file.txt''\<rparr>) \<and>
   accepted_rel example_os (path local_file) repo_mirror = Some ''file.txt'' \<and>
   update_in_repos example_os local_file [repo_sub, repo_mirror] =
     (None, local_file\<lparr>repo := Some repo_sub, path := ''file.txt''\<rparr>) \<and>
   repo local_in = None \<and>
   list_all (resolvable example_os (path local_in)) [repo_proj, repo_sub] \<and>
   all_accepted (\<lambda>x. False) example_os (path local_in) [repo_proj, repo_sub] \<and>
   update_in_repos example_os local_in [repo_proj, repo_sub] = (None, local_in)"
proof -
  have p: "path local_file = ''/data/proj/sub/file.txt''" "repo local_file = None"
    "path local_in = ''/home/u/data/in.txt''" "repo local_in = None"
    by (simp_all add: local_file_def local_in_def)
  have m: "accepted_rel example_os (path local_file) repo_proj = Some ''sub/file.txt''"
    "accepted_rel example_os (path local_file) repo_sub = Some ''file.txt''"
    "accepted_rel example_os (path local_file) repo_mirror = Some ''file.txt''"
    "accepted_rel example_os (path local_in) repo_proj = None"
    "accepted_rel example_os (path local_in) repo_sub = None"
    by (simp_all add: accepted_rel_def p example_roots example_relpaths startswith_def)
  have r: "list_all (resolvable example_os (path local_file)) [repo_proj, repo_sub]"
    "list_all (resolvable example_os (path local_file)) [repo_sub, repo_mirror]"
    "list_all (resolvable example_os (path local_in)) [repo_proj, repo_sub]"
    by (simp_all add: resolvable_def p example_roots example_relpaths)
  have 1: "update_in_repos example_os local_file [repo_proj, repo_sub] =
     (None, local_file\<lparr>repo := Some repo_sub, path := ''file.txt''\<rparr>)"
    using update_in_repos_selects [OF p(2) r(1), of "[repo_proj]" repo_sub "[]" "''file.txt''"]
    by (simp add: m all_accepted_def)
  have 2: "update_in_repos example_os local_file [repo_sub, repo_mirror] =
     (None, local_file\<lparr>repo := Some repo_sub, path := ''file.txt''\<rparr>)"
    using update_in_repos_selects [OF p(2) r(2), of "[]" repo_sub "[repo_mirror]" "''file.txt''"]
    by (simp add: m all_accepted_def)
  have n: "all_accepted (\<lambda>x. False) example_os (path local_in) [repo_proj, repo_sub]"
    by (simp add: m all_accepted_def)
  have 3: "update_in_repos example_os local_in [repo_proj, repo_sub] = (None, local_in)"
    using update_in_repos_selects [OF p(4) r(3), of "[]" repo_proj "[]" "[]"] n
    by simp
  from p m r 1 2 3 n show ?thesis by simp
qed

text \<open>
  The first component of a string is what precedes its first separator, so a relative
  path whose first component is \<open>..\<close> starts with the two characters \<open>..\<close>: every
  repository that the loop accepts is a match in the specification's sense, with the same
  relative path.
\<close>

lemma split_sep_first:
  "\<exists>cs. split_sep s = takeWhile (\<lambda>c. c \<noteq> CHR ''/'') s # cs"
  by (induction s) (auto split: list.splits)

lemma parent_traversal_startswith:
  "parent_traversal rel \<Longrightarrow> startswith rel ''..''"
proof -
  assume a: "parent_traversal rel"
  obtain cs where "split_sep rel = takeWhile (\<lambda>c. c \<noteq> CHR ''/'') rel # cs"
    using split_sep_first by blast
  with a have t: "takeWhile (\<lambda>c. c \<noteq> CHR ''/'') rel = ''..''"
    by (simp add: parent_traversal_def)
  have "rel = takeWhile (\<lambda>c. c \<noteq> CHR ''/'') rel @ dropWhile (\<lambda>c. c \<noteq> CHR ''/'') rel"
    by simp
  with t have "rel = ''..'' @ dropWhile (\<lambda>c. c \<noteq> CHR ''/'') rel" by simp
  then have "take (length ''..'') rel = ''..''"
    by (metis append_eq_conv_conj)
  then show ?thesis by (simp only: startswith_def)
qed

lemma accepted_is_match:
  "accepted_rel os p r = Some rel \<Longrightarrow> match_rel os p r = Some rel"
  by (auto simp add: accepted_rel_def match_rel_def
        split: option.splits sum.splits if_splits dest: parent_traversal_startswith)

text \<open>
  C4. The claim is that a repository is a match exactly when the file's path relative to
  its root does not start with a parent-directory traversal marker, and that the location
  is bound to the match with the shortest relative path. The file \<open>/data/proj/..hidden\<close>
  lies in the repository with root \<open>/data/proj\<close>: its relative path \<open>..hidden\<close> has no
  parent-directory component, so the repository matches and is the only match. The test
  of line 188 looks at the first two characters of the relative path, rejects the
  repository, and the location stays without repository, with its absolute path.
\<close>

theorem update_in_repos_dotdot_name_unbound:
  "fst (FileLocation_init example_os 7 C_FileLocation ''/data/proj/..hidden'' None None) =
     Inr local_hidden \<and>
   root repo_proj = Some ''/data/proj'' \<and>
   relpath example_os (path local_hidden) ''/data/proj'' = Inr ''..hidden'' \<and>
   parent_traversal ''..hidden'' = False \<and>
   match_rel example_os (path local_hidden) repo_proj = Some ''..hidden'' \<and>
   accepted_rel example_os (path local_hidden) repo_proj = None \<and>
   update_in_repos example_os local_hidden [repo_proj] = (None, local_hidden) \<and>
   repo (snd (update_in_repos example_os local_hidden [repo_proj])) = None"
proof -
  have c: "fst (FileLocation_init example_os 7 C_FileLocation ''/data/proj/..hidden'' None None) =
     Inr local_hidden"
    by (simp add: FileLocation_init_def truthy_def posix_defs local_hidden_def)
  have p: "path local_hidden = ''/data/proj/..hidden''" "repo local_hidden = None"
    by (simp_all add: local_hidden_def)
  have r: "relpath example_os ''/data/proj/..hidden'' ''/data/proj'' = Inr ''..hidden''"
    by (simp add: posix_defs)
  have t: "parent_traversal ''..hidden'' = False"
    by (simp add: parent_traversal_def)
  have m: "match_rel example_os (path local_hidden) repo_proj = Some ''..hidden''"
    by (simp add: match_rel_def p r t example_roots)
  have a: "accepted_rel example_os (path local_hidden) repo_proj = None"
    by (simp add: accepted_rel_def p r example_roots startswith_def)
  have u: "update_in_repos example_os local_hidden [repo_proj] = (None, local_hidden)"
    by (simp add: update_in_repos_def truthy_def p r example_roots Repository_root_def
          startswith_def)
  from c p r t m a u show ?thesis by (simp add: example_roots)
qed

text \<open>
  With repositories that can all be tried, the call returns.
\<close>

lemma update_loop_returns:
  "list_all (resolvable os p) repos \<Longrightarrow> fst (update_loop os p repos fl) = None"
proof (induction repos arbitrary: fl)
  case Nil
  show ?case by simp
next
  case (Cons x xs)
  then show ?case by (simp add: update_loop_step del: update_loop.simps(2))
qed

lemma update_in_repos_returns:
  "list_all (resolvable os (path fl)) repos \<Longrightarrow> fst (update_in_repos os fl repos) = None"
  by (simp add: update_in_repos_def update_loop_returns)

text \<open>
  A repository without a root at the head of the sequence makes the call raise for every
  location that has no repository.
\<close>

lemma update_in_repos_unrooted_head:
  "repo fl = None \<Longrightarrow> root r = None \<Longrightarrow>
   update_in_repos os fl (r # repos) = (Some (AttributeError ''_root''), fl)"
  by (simp add: update_in_repos_def truthy_def Repository_root_def)

text \<open>
  C2. The claim is that \<open>_update_in_repos\<close> never raises, also for repositories
  constructed without a root. The constructor assigns \<open>_root\<close> only when a root is passed
  (lines 163 to 165), and line 187 reads \<open>repo._root\<close> unguarded: for the local file
  location \<open>local_in\<close>, as its constructor returns it, and the repository
  \<open>Repository('10.5281/zenodo.46266')\<close> the call raises an \<open>AttributeError\<close>.
\<close>

theorem update_in_repos_unrooted_raises:
  "fst (FileLocation_init example_os 1 C_InputFileLocation ''data/in.txt'' None None) =
     Inr local_in \<and>
   repo_unrooted = \<lparr>doi = ''10.5281/zenodo.46266'', url = None, top_directory = None,
                    root = None\<rparr> \<and>
   update_in_repos example_os local_in [repo_unrooted] =
     (Some (AttributeError ''_root''), local_in)"
  by (simp add: FileLocation_init_def truthy_def posix_defs example_defs update_in_repos_def
        Repository_root_def)

end
